theory Spec2Isabelle
  imports Main "HOL-Library.Multiset"
begin

section \<open>The page registry of \<open>app.py\<close>\<close>

subsection \<open>User interface output and exceptions\<close>

text \<open>
  The program talks to the host framework only by drawing: \<open>st.title\<close> emits a heading,
  \<open>st_menu\<close> draws the option menu inside a context (\<open>st.sidebar\<close> or
  \<open>nullcontext()\<close>), and the page bodies draw whatever they like. The drawing done during
  one pass is the list of these events, oldest first.
\<close>

datatype menu_context = StSidebar | Nullcontext

datatype event =
    Heading string
  | OptionMenu menu_context "string option" "string list" string "string list"
  | Output string

type_synonym ui = "event list"

text \<open>
  The exceptions the modelled code can raise by itself (\<open>list.index\<close>, subscripting,
  attribute access, calling a non-callable) and, as \<open>Raised\<close>, whatever a page body raises.
\<close>

datatype exn = ValueError | IndexError | AttributeError | TypeError | Raised string

text \<open>
  A zero-argument Python callable whose return value is discarded: it transforms the output
  and either returns (\<open>None\<close>) or raises.
\<close>

type_synonym proc = "ui \<Rightarrow> exn option \<times> ui"

subsection \<open>\<open>Page\<close>\<close>

text \<open>
  \<open>contents\<close> is annotated \<open>Union[ModuleType, Callable]\<close>, but \<open>load_page\<close> inspects it with
  \<open>isinstance\<close>, so the model keeps the three outcomes of that inspection: an object that is
  callable, a module that is not callable, and anything else. For the two non-callable
  kinds the model records the object's \<open>load\<close> attribute, which is either not defined, a
  value that cannot be called, or a function.
\<close>

datatype attr = Undefined | Data | Function proc

datatype contents = Callable proc | Module attr | Other attr

text \<open>
  \<open>show_to\<close> is \<open>Optional[list]\<close>; the elements are compared with the value of
  \<open>st.session_state.get('username')\<close>, so they live in the type \<open>'u\<close> of such values
  (which contains Python's \<open>None\<close>, the value read when the key is absent).
\<close>

record 'u Page =
  uid :: string
  title :: string
  icon :: string
  contents :: contents
  index :: int
  show_to :: "'u list option"

subsection \<open>\<open>ToC\<close>\<close>

record 'u ToC =
  pages :: "'u Page list"

text \<open>
  The filter of \<open>ToC.__init__\<close>:
  \<open>lambda x: x.show_to is None or st.session_state.get('username') in x.show_to\<close>,
  with the value read from the session state as the parameter \<open>username\<close>.
\<close>

definition visible :: "'u \<Rightarrow> 'u Page \<Rightarrow> bool" where
  "visible username x =
     (case show_to x of None \<Rightarrow> True | Some l \<Rightarrow> username \<in> set l)"

text \<open>
  \<open>ToC.__init__\<close>: \<open>sorted(filter(..., pages), key=lambda x: x.index)\<close>. Python's \<open>sorted\<close>
  is a stable sort; \<open>sort_key\<close> is the stable insertion sort of the list library.
\<close>

definition ToC_init :: "'u \<Rightarrow> 'u Page list \<Rightarrow> 'u ToC" where
  "ToC_init username ps = \<lparr>pages = sort_key index (filter (visible username) ps)\<rparr>"

text \<open>
  \<open>ToC.get_pages\<close>: \<open>list(getattr(page, by) for page in self.pages)\<close>. The attribute name
  \<open>by\<close> is modelled by the field selector it names (\<open>title\<close> for \<open>'title'\<close>, \<open>icon\<close> for
  \<open>'icon'\<close>), so \<open>by\<close> ranges over the fields of the dataclass.
\<close>

definition get_pages :: "'u ToC \<Rightarrow> ('u Page \<Rightarrow> 'a) \<Rightarrow> 'a list" where
  "get_pages toc by = map by (pages toc)"

text \<open>\<open>list.index(x)\<close>: the position of the first element equal to \<open>x\<close>, or \<open>ValueError\<close>.\<close>

fun list_index :: "'a list \<Rightarrow> 'a \<Rightarrow> exn + nat" where
  "list_index [] x = Inl ValueError"
| "list_index (y # ys) x =
     (if y = x then Inr 0
      else case list_index ys x of Inl e \<Rightarrow> Inl e | Inr i \<Rightarrow> Inr (Suc i))"

text \<open>Subscripting a list with a non-negative position: \<open>IndexError\<close> out of range.\<close>

definition getitem :: "'a list \<Rightarrow> nat \<Rightarrow> exn + 'a" where
  "getitem xs i = (if i < length xs then Inr (xs ! i) else Inl IndexError)"

text \<open>
  \<open>ToC._get_page_by_title\<close>:
  \<open>self.pages[self.get_pages(by='title').index(title)]\<close>.
\<close>

definition get_page_by_title :: "'u ToC \<Rightarrow> string \<Rightarrow> exn + 'u Page" where
  "get_page_by_title toc t =
     (case list_index (get_pages toc title) t of
        Inl e \<Rightarrow> Inl e
      | Inr i \<Rightarrow> getitem (pages toc) i)"

text \<open>\<open>st.title(title)\<close> draws a heading.\<close>

definition st_title :: "string \<Rightarrow> ui \<Rightarrow> ui" where
  "st_title t u = u @ [Heading t]"

text \<open>
  \<open>contents.load()\<close> on a module: the attribute lookup raises \<open>AttributeError\<close> when the
  module defines no \<open>load\<close>, the call raises \<open>TypeError\<close> when \<open>load\<close> is not callable.
\<close>

fun call_load :: "attr \<Rightarrow> proc" where
  "call_load Undefined u = (Some AttributeError, u)"
| "call_load Data u = (Some TypeError, u)"
| "call_load (Function g) u = g u"

text \<open>
  \<open>ToC.load_page\<close>. The result is the exception that leaves the method, if any, together
  with everything drawn up to that point.
\<close>

definition load_page :: "'u ToC \<Rightarrow> string \<Rightarrow> bool \<Rightarrow> proc" where
  "load_page toc t show_title u =
     (let u1 = (if show_title then st_title t u else u) in
      case get_page_by_title toc t of
        Inl e \<Rightarrow> (Some e, u1)
      | Inr p \<Rightarrow>
          (case contents p of
             Callable f \<Rightarrow> f u1
           | Module a \<Rightarrow> call_load a u1
           | Other a \<Rightarrow> (None, u1)))"

subsection \<open>\<open>display_toc\<close>\<close>

text \<open>
  \<open>st_menu\<close> is the external option-menu widget. Here it is a parameter: the function that
  gives the option the widget returns as selected, for the context it is drawn in and the
  arguments \<open>menu_title\<close>, \<open>options\<close>, \<open>orientation\<close> and \<open>icons\<close>. The call itself is
  recorded in the output.
\<close>

type_synonym st_menu =
  "menu_context \<Rightarrow> string option \<Rightarrow> string list \<Rightarrow> string \<Rightarrow> string list \<Rightarrow> string"

definition display_toc ::
  "st_menu \<Rightarrow> 'u ToC \<Rightarrow> bool \<Rightarrow> string option \<Rightarrow> ui \<Rightarrow> string \<times> ui" where
  "display_toc st_menu toc in_sidebar menu_title u =
     (let context = (if in_sidebar then StSidebar else Nullcontext);
          orientation = (if in_sidebar then ''vertical'' else ''horizontal'');
          options = get_pages toc title;
          icons = get_pages toc icon;
          page_title = st_menu context menu_title options orientation icons
      in (page_title, u @ [OptionMenu context menu_title options orientation icons]))"

subsection \<open>The pages of \<open>main\<close> and further sample pages\<close>

text \<open>
  The three page bodies of \<open>main\<close> draw markdown text and an image; their output is kept
  here in abridged form. \<open>main_pages\<close> is the list handed to \<open>ToC\<close> in \<open>main\<close>, in the
  order written there.
\<close>

definition page_1 :: proc where
  "page_1 u = (None, u @ [Output ''## Hello from ToC!'',
     Output ''Use the menu to proceed to Page 2!''])"

definition page_2 :: proc where
  "page_2 u = (None, u @ [Output ''we can finally define ToC!'',
     Output ''Ok, that is all... or not?''])"

definition page_3 :: proc where
  "page_3 u = (None, u @ [Output ''## Awesome! You found the secret page'',
     Output ''https://pbs.twimg.com/media/Em03ZTtWEAgy8sR.jpg''])"

definition main_pages :: "string Page list" where
  "main_pages =
     [\<lparr>uid = ''page2'', title = ''Page 2'', icon = ''hand-index-thumb'',
        contents = Callable page_2, index = 1, show_to = None\<rparr>,
      \<lparr>uid = ''page3'', title = ''Secret page'', icon = ''arrow-up-circle'',
        contents = Callable page_3, index = 2, show_to = Some [''admin'']\<rparr>,
      \<lparr>uid = ''page1'', title = ''Page 1'', icon = ''person-square'',
        contents = Callable page_1, index = 0, show_to = None\<rparr>]"

text \<open>
  Further pages used to exercise the registry: one whose whitelist is the empty list, one
  whose \<open>contents\<close> is a plain object (neither callable nor a module) that defines \<open>load\<close>,
  one whose \<open>contents\<close> is a module defining \<open>load\<close>, one shown to two viewers, and a
  restricted page that carries the title of \<open>Page 1\<close>. \<open>first_option\<close> is a menu widget
  that reports its first option as the selected one.
\<close>

definition empty_whitelist_page :: "string Page" where
  "empty_whitelist_page =
     \<lparr>uid = ''page4'', title = ''Page 4'', icon = ''lock'',
      contents = Callable page_1, index = 3, show_to = Some []\<rparr>"

definition loader :: proc where
  "loader u = (None, u @ [Output ''loaded''])"

definition object_page :: "string Page" where
  "object_page =
     \<lparr>uid = ''page5'', title = ''Page 5'', icon = ''box'',
      contents = Other (Function loader), index = 4, show_to = None\<rparr>"

definition module_page :: "string Page" where
  "module_page =
     \<lparr>uid = ''page6'', title = ''Page 6'', icon = ''file-code'',
      contents = Module (Function loader), index = 5, show_to = None\<rparr>"

definition first_option :: st_menu where
  "first_option c menu_title options orientation icons =
     (case options of [] \<Rightarrow> [] | x # _ \<Rightarrow> x)"

definition shared_page :: "string Page" where
  "shared_page =
     \<lparr>uid = ''page7'', title = ''Page 7'', icon = ''people'',
      contents = Callable page_2, index = 6, show_to = Some [''admin'', ''editor'']\<rparr>"

definition secret_namesake :: "string Page" where
  "secret_namesake =
     \<lparr>uid = ''page8'', title = ''Page 1'', icon = ''incognito'',
      contents = Callable page_3, index = -1, show_to = Some [''admin'']\<rparr>"

section \<open>Properties\<close>

subsection \<open>Helper facts\<close>

lemma pages_ToC_init: "pages (ToC_init v ps) = sort_key index (filter (visible v) ps)"
  by (simp add: ToC_init_def)

lemma set_pages_ToC_init: "set (pages (ToC_init v ps)) = {p \<in> set ps. visible v p}"
  by (simp add: pages_ToC_init)

lemma visible_iff: "visible v x \<longleftrightarrow> show_to x = None \<or> (\<exists>l. show_to x = Some l \<and> v \<in> set l)"
  by (simp add: visible_def split: option.split)

lemma list_index_absent: "x \<notin> set xs \<Longrightarrow> list_index xs x = Inl ValueError"
  by (induction xs) auto

lemma list_index_present:
  "x \<in> set xs \<Longrightarrow>
     \<exists>i. list_index xs x = Inr i \<and> i < length xs \<and> xs ! i = x \<and> (\<forall>j<i. xs ! j \<noteq> x)"
proof (induction xs)
  case Nil
  then show ?case by simp
next
  case (Cons y ys)
  show ?case
  proof (cases "y = x")
    case True
    then show ?thesis by simp
  next
    case False
    with Cons.prems have "x \<in> set ys" by simp
    from Cons.IH [OF this] obtain i where
      i: "list_index ys x = Inr i" "i < length ys" "ys ! i = x" "\<forall>j<i. ys ! j \<noteq> x"
      by blast
    have "\<forall>j<Suc i. (y # ys) ! j \<noteq> x"
      using False i(4) by (auto simp: nth_Cons split: nat.splits)
    with False i show ?thesis by simp
  qed
qed

lemma get_page_by_title_absent:
  assumes "\<forall>p \<in> set (pages toc). title p \<noteq> t"
  shows "get_page_by_title toc t = Inl ValueError"
proof -
  from assms have "t \<notin> set (get_pages toc title)"
    by (auto simp: get_pages_def)
  then show ?thesis
    by (simp add: get_page_by_title_def list_index_absent)
qed

lemma get_page_by_title_present:
  assumes "\<exists>p \<in> set (pages toc). title p = t"
  shows "\<exists>i<length (pages toc). get_page_by_title toc t = Inr (pages toc ! i)
           \<and> title (pages toc ! i) = t \<and> (\<forall>j<i. title (pages toc ! j) \<noteq> t)"
proof -
  from assms have "t \<in> set (get_pages toc title)"
    by (auto simp: get_pages_def)
  from list_index_present [OF this] obtain i where
    i: "list_index (get_pages toc title) t = Inr i" "i < length (get_pages toc title)"
       "get_pages toc title ! i = t" "\<forall>j<i. get_pages toc title ! j \<noteq> t"
    by blast
  from i(2) have len: "i < length (pages toc)" by (simp add: get_pages_def)
  from i(1) len have "get_page_by_title toc t = Inr (pages toc ! i)"
    by (simp add: get_page_by_title_def getitem_def)
  moreover from i(3) len have "title (pages toc ! i) = t" by (simp add: get_pages_def)
  moreover from i(4) len have "\<forall>j<i. title (pages toc ! j) \<noteq> t" by (simp add: get_pages_def)
  ultimately show ?thesis using len by blast
qed

lemma get_page_by_title_unique:
  assumes "p \<in> set (pages toc)" and "\<forall>r \<in> set (pages toc). title r = title p \<longrightarrow> r = p"
  shows "get_page_by_title toc (title p) = Inr p"
proof -
  from assms(1) have "\<exists>r \<in> set (pages toc). title r = title p" by blast
  from get_page_by_title_present [OF this] obtain i where
    i: "i < length (pages toc)" "get_page_by_title toc (title p) = Inr (pages toc ! i)"
       "title (pages toc ! i) = title p"
    by blast
  from i(1) have "pages toc ! i \<in> set (pages toc)" by simp
  with assms(2) i(3) have "pages toc ! i = p" by blast
  with i(2) show ?thesis by simp
qed


subsection \<open>The visibility filter\<close>

text \<open>
  A page whose whitelist is the empty list is shown to nobody: for the viewer \<open>user\<close> the
  registry built from such a page alone does not contain it.
\<close>

theorem visible_filter_empty_counterexample:
  "empty_whitelist_page \<in> set [empty_whitelist_page]
   \<and> show_to empty_whitelist_page = Some []
   \<and> empty_whitelist_page \<notin> set (pages (ToC_init ''user'' [empty_whitelist_page]))"
  by (simp add: empty_whitelist_page_def ToC_init_def visible_def)

text \<open>
  C1 (as amended). A page of the input list is kept by the registry exactly when its
  \<open>show_to\<close> is \<open>None\<close> or the viewer identity is a member of \<open>show_to\<close>. So a page with
  \<open>show_to = None\<close> is kept for every viewer, a page whose \<open>show_to\<close> is the empty list is
  kept for no viewer, and a page with \<open>show_to = [a, b]\<close> is kept if and only if the viewer
  identity is \<open>a\<close> or \<open>b\<close>.
\<close>

theorem visible_filter:
  "(p \<in> set (pages (ToC_init v ps))
      \<longleftrightarrow> p \<in> set ps \<and> (show_to p = None \<or> (\<exists>l. show_to p = Some l \<and> v \<in> set l)))
   \<and> (p \<in> set ps \<and> show_to p = None \<longrightarrow> p \<in> set (pages (ToC_init v ps)))
   \<and> (p \<in> set ps \<and> show_to p = Some [] \<longrightarrow> p \<notin> set (pages (ToC_init v ps)))
   \<and> (p \<in> set ps \<and> show_to p = Some [a, b]
        \<longrightarrow> (p \<in> set (pages (ToC_init v ps)) \<longleftrightarrow> v = a \<or> v = b))"
  by (auto simp: set_pages_ToC_init visible_iff)

theorem visible_filter_witness:
  "(main_pages ! 0 \<in> set main_pages \<and> show_to (main_pages ! 0) = None
      \<and> main_pages ! 0 \<in> set (pages (ToC_init ''user'' main_pages)))
   \<and> (empty_whitelist_page \<in> set [empty_whitelist_page]
      \<and> show_to empty_whitelist_page = Some []
      \<and> empty_whitelist_page \<notin> set (pages (ToC_init ''user'' [empty_whitelist_page])))
   \<and> (shared_page \<in> set [shared_page]
      \<and> show_to shared_page = Some [''admin'', ''editor'']
      \<and> shared_page \<in> set (pages (ToC_init ''editor'' [shared_page]))
      \<and> shared_page \<notin> set (pages (ToC_init ''user'' [shared_page])))"
  using visible_filter [of "main_pages ! 0" "''user''" main_pages]
    visible_filter [of empty_whitelist_page "''user''" "[empty_whitelist_page]"]
    visible_filter [of shared_page "''editor''" "[shared_page]" "''admin''" "''editor''"]
    visible_filter [of shared_page "''user''" "[shared_page]" "''admin''" "''editor''"]
  by (simp add: main_pages_def empty_whitelist_page_def shared_page_def)

subsection \<open>Lookup by title\<close>

text \<open>
  C2. For every registry and title: if some page of the registry has that title, the lookup
  returns the page at the first position of the registry's list whose title matches; if no
  page of the registry has that title, the lookup fails with \<open>ValueError\<close> (the not-found
  error of \<open>list.index\<close>), and \<open>load_page\<close> ends with that same error, having loaded no
  page in its place.
\<close>

theorem get_page_by_title_first_or_not_found:
  "((\<exists>p \<in> set (pages toc). title p = t) \<longrightarrow>
      (\<exists>i<length (pages toc). get_page_by_title toc t = Inr (pages toc ! i)
          \<and> title (pages toc ! i) = t \<and> (\<forall>j<i. title (pages toc ! j) \<noteq> t)))
   \<and> ((\<forall>p \<in> set (pages toc). title p \<noteq> t) \<longrightarrow>
        get_page_by_title toc t = Inl ValueError
        \<and> load_page toc t show_title u
            = (Some ValueError, if show_title then st_title t u else u))"
proof (intro conjI impI)
  assume "\<exists>p \<in> set (pages toc). title p = t"
  then show "\<exists>i<length (pages toc). get_page_by_title toc t = Inr (pages toc ! i)
          \<and> title (pages toc ! i) = t \<and> (\<forall>j<i. title (pages toc ! j) \<noteq> t)"
    by (rule get_page_by_title_present)
next
  assume "\<forall>p \<in> set (pages toc). title p \<noteq> t"
  then show "get_page_by_title toc t = Inl ValueError"
    by (rule get_page_by_title_absent)
next
  assume "\<forall>p \<in> set (pages toc). title p \<noteq> t"
  then have "get_page_by_title toc t = Inl ValueError"
    by (rule get_page_by_title_absent)
  then show "load_page toc t show_title u
            = (Some ValueError, if show_title then st_title t u else u)"
    by (simp add: load_page_def)
qed

theorem get_page_by_title_first_or_not_found_witness:
  "(\<exists>p \<in> set (pages (ToC_init ''user'' main_pages)). title p = ''Page 2'')
   \<and> get_page_by_title (ToC_init ''user'' main_pages) ''Page 2'' = Inr (main_pages ! 0)
   \<and> \<not> (\<exists>p \<in> set (pages (ToC_init ''user'' main_pages)). title p = ''Secret page'')
   \<and> get_page_by_title (ToC_init ''user'' main_pages) ''Secret page'' = Inl ValueError
   \<and> load_page (ToC_init ''user'' main_pages) ''Secret page'' False []
        = (Some ValueError, [])"
  using get_page_by_title_first_or_not_found
      [of "ToC_init ''user'' main_pages" "''Page 2''" False "[]"]
    get_page_by_title_first_or_not_found
      [of "ToC_init ''user'' main_pages" "''Secret page''" False "[]"]
  by (simp add: main_pages_def ToC_init_def visible_def get_page_by_title_def
      get_pages_def getitem_def)

subsection \<open>Order of the registry\<close>

text \<open>
  C3. For every input list the registry holds exactly the visible pages, in order of
  non-decreasing \<open>index\<close>, and for every index value the pages with that index appear in the
  order they have in the input (the sort is stable). In particular three visible pages with
  indices 0, 2, 1 given as \<open>[P0, P1, P2]\<close> are stored as \<open>[P0, P2, P1]\<close>.
\<close>

theorem ToC_init_sorted_stable:
  "sorted (map index (pages (ToC_init v ps)))
   \<and> mset (pages (ToC_init v ps)) = mset (filter (visible v) ps)
   \<and> (\<forall>k. filter (\<lambda>p. index p = k) (pages (ToC_init v ps))
            = filter (\<lambda>p. index p = k) (filter (visible v) ps))
   \<and> (index P0 = 0 \<and> index P1 = 2 \<and> index P2 = 1
        \<and> visible v P0 \<and> visible v P1 \<and> visible v P2
        \<longrightarrow> pages (ToC_init v [P0, P1, P2]) = [P0, P2, P1])"
proof (intro conjI allI impI)
  show "sorted (map index (pages (ToC_init v ps)))"
    by (simp add: pages_ToC_init)
  show "mset (pages (ToC_init v ps)) = mset (filter (visible v) ps)"
    by (simp add: pages_ToC_init)
  show "filter (\<lambda>p. index p = k) (pages (ToC_init v ps))
            = filter (\<lambda>p. index p = k) (filter (visible v) ps)" for k
    unfolding pages_ToC_init by (rule sort_key_stable)
  assume "index P0 = 0 \<and> index P1 = 2 \<and> index P2 = 1
        \<and> visible v P0 \<and> visible v P1 \<and> visible v P2"
  then show "pages (ToC_init v [P0, P1, P2]) = [P0, P2, P1]"
    by (simp add: pages_ToC_init)
qed

theorem ToC_init_sorted_stable_witness:
  "index (main_pages ! 2) = 0 \<and> index (main_pages ! 1) = 2 \<and> index (main_pages ! 0) = 1
   \<and> visible ''admin'' (main_pages ! 2) \<and> visible ''admin'' (main_pages ! 1)
   \<and> visible ''admin'' (main_pages ! 0)
   \<and> pages (ToC_init ''admin'' [main_pages ! 2, main_pages ! 1, main_pages ! 0])
       = [main_pages ! 2, main_pages ! 0, main_pages ! 1]
   \<and> sorted (map index (pages (ToC_init ''admin'' main_pages)))"
  using ToC_init_sorted_stable
      [of "''admin''" "main_pages" "main_pages ! 2" "main_pages ! 1" "main_pages ! 0"]
  by (simp add: main_pages_def visible_def)

subsection \<open>Filtering comes before lookup\<close>

text \<open>
  C4. Let two pages share a title, one visible to the viewer and one not, and let every
  other page of the input with that title be hidden from the viewer as well. Then looking
  the title up returns the visible page, whichever of the two comes first in the input.
\<close>

theorem lookup_filtered_before:
  assumes "title p = title q" and "visible v p" and "\<not> visible v q"
    and "\<forall>r \<in> set xs \<union> set ys \<union> set zs. title r = title p \<longrightarrow> \<not> visible v r"
  shows "get_page_by_title (ToC_init v (xs @ p # ys @ q # zs)) (title p) = Inr p
       \<and> get_page_by_title (ToC_init v (xs @ q # ys @ p # zs)) (title p) = Inr p"
proof -
  have one: "get_page_by_title (ToC_init v ps) (title p) = Inr p"
    if "set ps = insert p (insert q (set xs \<union> set ys \<union> set zs))" for ps
  proof (rule get_page_by_title_unique)
    show "p \<in> set (pages (ToC_init v ps))"
      using that assms(2) by (simp add: set_pages_ToC_init)
    show "\<forall>r \<in> set (pages (ToC_init v ps)). title r = title p \<longrightarrow> r = p"
      using that assms(1,3,4) by (auto simp: set_pages_ToC_init)
  qed
  have "get_page_by_title (ToC_init v (xs @ p # ys @ q # zs)) (title p) = Inr p"
    by (rule one) auto
  moreover have "get_page_by_title (ToC_init v (xs @ q # ys @ p # zs)) (title p) = Inr p"
    by (rule one) auto
  ultimately show ?thesis by simp
qed

theorem lookup_filtered_before_witness:
  "title (main_pages ! 2) = title secret_namesake
   \<and> visible ''user'' (main_pages ! 2) \<and> \<not> visible ''user'' secret_namesake
   \<and> \<not> (\<exists>r \<in> set [] \<union> set [main_pages ! 0] \<union> set [].
         title r = title (main_pages ! 2) \<and> visible ''user'' r)
   \<and> get_page_by_title (ToC_init ''user'' [main_pages ! 2, main_pages ! 0, secret_namesake])
         ''Page 1'' = Inr (main_pages ! 2)
   \<and> get_page_by_title (ToC_init ''user'' [secret_namesake, main_pages ! 0, main_pages ! 2])
         ''Page 1'' = Inr (main_pages ! 2)"
  using lookup_filtered_before
      [of "main_pages ! 2" secret_namesake "''user''" "[]" "[main_pages ! 0]" "[]"]
  by (simp add: main_pages_def secret_namesake_def visible_def)

subsection \<open>Dispatch to the page contents\<close>

text \<open>
  A page whose \<open>contents\<close> is neither callable nor a module, but does define a \<open>load\<close>
  function: \<open>load_page\<close> resolves the page and returns without drawing anything, whereas
  calling \<open>load\<close> would have drawn.
\<close>

theorem load_page_dispatch_counterexample:
  "get_page_by_title (ToC_init ''user'' [object_page]) ''Page 5'' = Inr object_page
   \<and> contents object_page = Other (Function loader)
   \<and> load_page (ToC_init ''user'' [object_page]) ''Page 5'' False [] = (None, [])
   \<and> loader [] = (None, [Output ''loaded''])
   \<and> load_page (ToC_init ''user'' [object_page]) ''Page 5'' False [] \<noteq> loader []"
  by (simp add: object_page_def loader_def ToC_init_def visible_def get_page_by_title_def
      get_pages_def getitem_def load_page_def)

text \<open>
  C5 (as amended). For every page resolved by \<open>load_page\<close>: if its \<open>contents\<close> is callable,
  \<open>load_page\<close> calls it with no arguments, after the optional heading; otherwise, if its
  \<open>contents\<close> is a module, \<open>load_page\<close> calls the module's \<open>load\<close> function with no
  arguments. The outcome of \<open>load_page\<close> is the outcome of that call.
\<close>

theorem load_page_dispatch:
  assumes "get_page_by_title toc t = Inr p"
  shows "(contents p = Callable f \<longrightarrow>
            load_page toc t show_title u = f (if show_title then st_title t u else u))
       \<and> (contents p = Module (Function g) \<longrightarrow>
            load_page toc t show_title u = g (if show_title then st_title t u else u))"
  using assms by (simp add: load_page_def)

theorem load_page_dispatch_witness:
  "get_page_by_title (ToC_init ''user'' main_pages) ''Page 1'' = Inr (main_pages ! 2)
   \<and> contents (main_pages ! 2) = Callable page_1
   \<and> load_page (ToC_init ''user'' main_pages) ''Page 1'' False [] = page_1 []
   \<and> get_page_by_title (ToC_init ''user'' [module_page]) ''Page 6'' = Inr module_page
   \<and> contents module_page = Module (Function loader)
   \<and> load_page (ToC_init ''user'' [module_page]) ''Page 6'' True []
       = (None, [Heading ''Page 6'', Output ''loaded''])"
proof -
  have a: "get_page_by_title (ToC_init ''user'' main_pages) ''Page 1'' = Inr (main_pages ! 2)"
    by (simp add: main_pages_def ToC_init_def visible_def get_page_by_title_def
        get_pages_def getitem_def)
  have b: "get_page_by_title (ToC_init ''user'' [module_page]) ''Page 6'' = Inr module_page"
    by (simp add: module_page_def ToC_init_def visible_def get_page_by_title_def
        get_pages_def getitem_def)
  have c: "contents (main_pages ! 2) = Callable page_1"
    by (simp add: main_pages_def)
  have d: "contents module_page = Module (Function loader)"
    by (simp add: module_page_def)
  from load_page_dispatch [OF a, of page_1 False "[]" loader] c
  have "load_page (ToC_init ''user'' main_pages) ''Page 1'' False [] = page_1 []"
    by simp
  moreover from load_page_dispatch [OF b, of page_1 True "[]" loader] d
  have "load_page (ToC_init ''user'' [module_page]) ''Page 6'' True []
       = (None, [Heading ''Page 6'', Output ''loaded''])"
    by (simp add: st_title_def loader_def)
  ultimately show ?thesis using a b c d by simp
qed

text \<open>
  C9. For every resolved page whose \<open>contents\<close> is neither callable nor a module,
  \<open>load_page\<close> invokes nothing and returns normally: apart from the optional heading the
  output is unchanged and no exception leaves the method.
\<close>

theorem load_page_other_noop:
  assumes "get_page_by_title toc t = Inr p" and "contents p = Other a"
  shows "load_page toc t show_title u = (None, if show_title then st_title t u else u)"
  using assms by (simp add: load_page_def)

theorem load_page_other_noop_witness:
  "get_page_by_title (ToC_init ''user'' [object_page]) ''Page 5'' = Inr object_page
   \<and> contents object_page = Other (Function loader)
   \<and> load_page (ToC_init ''user'' [object_page]) ''Page 5'' True []
       = (None, [Heading ''Page 5''])"
proof -
  have a: "get_page_by_title (ToC_init ''user'' [object_page]) ''Page 5'' = Inr object_page"
    by (simp add: object_page_def ToC_init_def visible_def get_page_by_title_def
        get_pages_def getitem_def)
  have b: "contents object_page = Other (Function loader)"
    by (simp add: object_page_def)
  from load_page_other_noop [OF a b, of True "[]"] a b show ?thesis
    by (simp add: st_title_def)
qed

text \<open>
  C10. With \<open>show_title\<close> set, \<open>load_page\<close> behaves as: draw the heading, then do everything
  else (resolve the title and dispatch) on the output that already holds the heading. Hence
  when no page of the registry has the title, the heading has been drawn when the not-found
  error leaves the method.
\<close>

theorem load_page_title_first:
  "load_page toc t True u = load_page toc t False (u @ [Heading t])
   \<and> ((\<forall>p \<in> set (pages toc). title p \<noteq> t) \<longrightarrow>
        load_page toc t True u = (Some ValueError, u @ [Heading t]))"
proof (intro conjI impI)
  show "load_page toc t True u = load_page toc t False (u @ [Heading t])"
    by (simp add: load_page_def st_title_def)
  assume "\<forall>p \<in> set (pages toc). title p \<noteq> t"
  then have "get_page_by_title toc t = Inl ValueError"
    by (rule get_page_by_title_absent)
  then show "load_page toc t True u = (Some ValueError, u @ [Heading t])"
    by (simp add: load_page_def st_title_def)
qed

theorem load_page_title_first_witness:
  "\<not> (\<exists>p \<in> set (pages (ToC_init ''user'' main_pages)). title p = ''Secret page'')
   \<and> load_page (ToC_init ''user'' main_pages) ''Secret page'' True []
       = (Some ValueError, [Heading ''Secret page''])"
  using load_page_title_first [of "ToC_init ''user'' main_pages" "''Secret page''" "[]"]
  by (simp add: main_pages_def ToC_init_def visible_def load_page_def get_page_by_title_def
      get_pages_def)

subsection \<open>Attribute projections\<close>

text \<open>
  C6. For every registry the title projection and the icon projection have the same length,
  the length of the registry's page list, and at every position both hold the attribute of
  the page at that position of the list; for a registry built by the constructor that list
  is in non-decreasing order of \<open>index\<close>.
\<close>

theorem get_pages_lock_step:
  "length (get_pages toc title) = length (get_pages toc icon)
   \<and> length (get_pages toc title) = length (pages toc)
   \<and> (\<forall>i<length (pages toc).
         get_pages toc title ! i = title (pages toc ! i)
         \<and> get_pages toc icon ! i = icon (pages toc ! i))
   \<and> (toc = ToC_init v ps \<longrightarrow> sorted (map index (pages toc)))"
  by (simp add: get_pages_def pages_ToC_init)

theorem get_pages_lock_step_witness:
  "get_pages (ToC_init ''admin'' main_pages) title = [''Page 1'', ''Page 2'', ''Secret page'']
   \<and> get_pages (ToC_init ''admin'' main_pages) icon
       = [''person-square'', ''hand-index-thumb'', ''arrow-up-circle'']
   \<and> (1::nat) < length (pages (ToC_init ''admin'' main_pages))
   \<and> get_pages (ToC_init ''admin'' main_pages) title ! 1
       = title (pages (ToC_init ''admin'' main_pages) ! 1)
   \<and> get_pages (ToC_init ''admin'' main_pages) icon ! 1
       = icon (pages (ToC_init ''admin'' main_pages) ! 1)
   \<and> sorted (map index (pages (ToC_init ''admin'' main_pages)))"
  using get_pages_lock_step [of "ToC_init ''admin'' main_pages" "''admin''" main_pages]
  by (simp add: main_pages_def ToC_init_def visible_def get_pages_def)

subsection \<open>Placement of the menu\<close>

text \<open>
  C8. With \<open>in_sidebar\<close> true the menu is drawn in the sidebar with vertical orientation;
  with \<open>in_sidebar\<close> false it is drawn in the main region (under \<open>nullcontext()\<close>) with
  horizontal orientation. The one flag decides both: the sidebar goes with vertical and
  only with vertical, the main region with horizontal and only with horizontal.
\<close>

theorem display_toc_placement:
  "display_toc st_menu toc True menu_title u
     = (st_menu StSidebar menu_title (get_pages toc title) ''vertical'' (get_pages toc icon),
        u @ [OptionMenu StSidebar menu_title (get_pages toc title) ''vertical''
               (get_pages toc icon)])
   \<and> display_toc st_menu toc False menu_title u
     = (st_menu Nullcontext menu_title (get_pages toc title) ''horizontal''
          (get_pages toc icon),
        u @ [OptionMenu Nullcontext menu_title (get_pages toc title) ''horizontal''
               (get_pages toc icon)])
   \<and> (\<exists>c orientation.
         snd (display_toc st_menu toc in_sidebar menu_title u)
           = u @ [OptionMenu c menu_title (get_pages toc title) orientation
                    (get_pages toc icon)]
         \<and> (c = StSidebar \<longleftrightarrow> in_sidebar)
         \<and> (orientation = ''vertical'' \<longleftrightarrow> in_sidebar)
         \<and> (c = Nullcontext \<longleftrightarrow> \<not> in_sidebar)
         \<and> (orientation = ''horizontal'' \<longleftrightarrow> \<not> in_sidebar))"
  by (cases in_sidebar) (simp_all add: display_toc_def Let_def)

theorem display_toc_placement_witness:
  "display_toc first_option (ToC_init ''user'' main_pages) True None []
     = (''Page 1'',
        [OptionMenu StSidebar None [''Page 1'', ''Page 2''] ''vertical''
           [''person-square'', ''hand-index-thumb'']])
   \<and> display_toc first_option (ToC_init ''user'' main_pages) False (Some ''Menu'') []
     = (''Page 1'',
        [OptionMenu Nullcontext (Some ''Menu'') [''Page 1'', ''Page 2''] ''horizontal''
           [''person-square'', ''hand-index-thumb'']])"
  using display_toc_placement
      [of first_option "ToC_init ''user'' main_pages" None "[]" True]
    display_toc_placement
      [of first_option "ToC_init ''user'' main_pages" "Some ''Menu''" "[]" False]
  by (simp add: main_pages_def ToC_init_def visible_def get_pages_def first_option_def
      display_toc_def Let_def)

subsection \<open>Construction with no visible page\<close>

text \<open>
  C7. When no page of the input list is visible to the viewer, construction yields a
  registry whose page list is empty. Construction is a total function of the viewer and
  the page list: it has no error outcome.
\<close>

theorem ToC_init_no_visible_empty:
  assumes "\<forall>p \<in> set ps. \<not> visible v p"
  shows "pages (ToC_init v ps) = []"
proof -
  from assms have "filter (visible v) ps = []"
    by (simp add: filter_empty_conv)
  then show ?thesis
    by (simp add: pages_ToC_init)
qed

theorem ToC_init_no_visible_empty_witness:
  "\<not> (\<exists>p \<in> set [main_pages ! 1]. visible ''user'' p)
   \<and> pages (ToC_init ''user'' [main_pages ! 1]) = []"
  using ToC_init_no_visible_empty [of "[main_pages ! 1]" "''user''"]
  by (simp add: main_pages_def visible_def)

end
